theory Spec2Isabelle
  imports Main
begin

section \<open>Python values, exceptions and the outcome of a call\<close>

text \<open>
  The values that travel through the tool envelopes: JSON-like Python data. A dict is an
  association list in insertion order with distinct keys; \<open>PObject\<close> stands for any other
  Python object (it is truthy, as objects are by default).
\<close>

datatype pyval =
    PNone
  | PBool bool
  | PInt int
  | PStr string
  | PList "pyval list"
  | PDict "(pyval \<times> pyval) list"
  | PObject string

type_synonym pydict = "(pyval \<times> pyval) list"

text \<open>
  The exceptions the code raises or handles. \<open>OtherException\<close> is any other subclass of
  \<open>Exception\<close> (with its text), \<open>NonException\<close> a \<open>BaseException\<close> that is not an
  \<open>Exception\<close> (\<open>KeyboardInterrupt\<close>, \<open>SystemExit\<close>): \<open>except Exception\<close> lets it pass.
\<close>

datatype pyexc =
    KeyError string
  | TypeError string
  | AttributeError string
  | SandboxTimeout string
  | RuntimeError string
  | OtherException string
  | NonException string

fun is_Exception :: "pyexc \<Rightarrow> bool" where
  "is_Exception (NonException m) = False"
| "is_Exception e = True"

text \<open>\<open>str(e)\<close>: a \<open>KeyError\<close> prints its key quoted, the others print their message.\<close>

fun str_exc :: "pyexc \<Rightarrow> string" where
  "str_exc (KeyError k) = [CHR 0x27] @ k @ [CHR 0x27]"
| "str_exc (TypeError m) = m"
| "str_exc (AttributeError m) = m"
| "str_exc (SandboxTimeout m) = m"
| "str_exc (RuntimeError m) = m"
| "str_exc (OtherException m) = m"
| "str_exc (NonException m) = m"

text \<open>
  A Python call returns a value, raises, or does not come back. Every function of the
  model that can raise or hang in the source has this result type.
\<close>

datatype 'a outcome = Returns 'a | Raises pyexc | Hangs

fun obind :: "'a outcome \<Rightarrow> ('a \<Rightarrow> 'b outcome) \<Rightarrow> 'b outcome" where
  "obind (Returns x) f = f x"
| "obind (Raises e) f = Raises e"
| "obind Hangs f = Hangs"

text \<open>Truth value of an object, as \<open>if x\<close> and \<open>not x\<close> read it.\<close>

fun truthy :: "pyval \<Rightarrow> bool" where
  "truthy PNone = False"
| "truthy (PBool b) = b"
| "truthy (PInt i) = (i \<noteq> 0)"
| "truthy (PStr s) = (s \<noteq> [])"
| "truthy (PList xs) = (xs \<noteq> [])"
| "truthy (PDict d) = (d \<noteq> [])"
| "truthy (PObject s) = True"

text \<open>\<open>k in d\<close> and \<open>d.get(k)\<close> on a dict with a string key.\<close>

definition dget :: "pydict \<Rightarrow> string \<Rightarrow> pyval option" where
  "dget d k = map_of d (PStr k)"

text \<open>\<open>d.get(k, default)\<close> on a dict.\<close>

definition dget_default :: "pydict \<Rightarrow> string \<Rightarrow> pyval \<Rightarrow> pyval" where
  "dget_default d k dflt = (case dget d k of None \<Rightarrow> dflt | Some v \<Rightarrow> v)"

text \<open>\<open>d[k] = v\<close>: replaces the value of an existing key in place, appends a new key.\<close>

fun dset :: "pydict \<Rightarrow> string \<Rightarrow> pyval \<Rightarrow> pydict" where
  "dset [] k v = [(PStr k, v)]"
| "dset ((k', v') # d) k v = (if k' = PStr k then (k', v) # d else (k', v') # dset d k v)"

text \<open>
  \<open>args[k]\<close> and \<open>args.get(k, default)\<close> on whatever \<open>json.loads\<close> produced: a missing
  key raises \<open>KeyError\<close>, a value that is no dict raises \<open>TypeError\<close> (no string index) or
  \<open>AttributeError\<close> (no \<open>get\<close>).
\<close>

fun getitem :: "pyval \<Rightarrow> string \<Rightarrow> pyval outcome" where
  "getitem (PDict d) k = (case dget d k of None \<Rightarrow> Raises (KeyError k) | Some v \<Rightarrow> Returns v)"
| "getitem v k = Raises (TypeError ''not subscriptable by a string'')"

fun get_or :: "pyval \<Rightarrow> string \<Rightarrow> pyval \<Rightarrow> pyval outcome" where
  "get_or (PDict d) k dflt = Returns (dget_default d k dflt)"
| "get_or v k dflt = Raises (AttributeError ''get'')"

section \<open>Tables\<close>

text \<open>
  A pandas DataFrame: column labels and rows of cells, a cell being a value or NaN.
  Only the operations the dispatcher and the sandbox apply to a result are modelled.
\<close>

datatype cell = NaN | Val pyval

record dataframe =
  columns :: "pyval list"
  rows :: "cell list list"

definition head :: "nat \<Rightarrow> dataframe \<Rightarrow> dataframe" where
  "head n df = df\<lparr>rows := take n (rows df)\<rparr>"

fun fill_cell :: "pyval \<Rightarrow> cell \<Rightarrow> cell" where
  "fill_cell v NaN = Val v"
| "fill_cell v (Val x) = Val x"

definition fillna :: "pyval \<Rightarrow> dataframe \<Rightarrow> dataframe" where
  "fillna v df = df\<lparr>rows := map (map (fill_cell v)) (rows df)\<rparr>"

fun cell_value :: "cell \<Rightarrow> pyval" where
  "cell_value NaN = PObject ''nan''"
| "cell_value (Val x) = x"

text \<open>\<open>df.to_dict(orient="records")\<close>: one dict per row, in row order.\<close>

definition to_dict_records :: "dataframe \<Rightarrow> pyval" where
  "to_dict_records df = PList (map (\<lambda>r. PDict (zip (columns df) (map cell_value r))) (rows df))"

definition len_df :: "dataframe \<Rightarrow> int" where
  "len_df df = int (length (rows df))"

section \<open>The store (store.py)\<close>

text \<open>
  The module-level state. DataFrames are objects: \<open>data_frames\<close> maps a file id to a
  reference, \<open>heap\<close> gives the contents of every DataFrame object of the process, and
  \<open>next_ref\<close> is the first reference not yet handed out (references below it are
  allocated). A document's metadata has the three fields its only writer stores.
\<close>

record doc_meta =
  doc_name :: string
  num_chunks :: nat
  entities :: "string list"

datatype turn =
    UserTurn string
  | AssistantTurn string pyval pyval pyval

record state =
  heap :: "nat \<Rightarrow> dataframe"
  next_ref :: nat
  data_frames :: "string \<rightharpoonup> nat"
  data_meta :: "string \<rightharpoonup> pydict"
  active_dataset_id :: "string option"
  document_meta :: "(string \<times> doc_meta) list"
  conversation_history :: "turn list"

definition clear_all :: "state \<Rightarrow> state" where
  "clear_all st = st\<lparr>data_frames := Map.empty, data_meta := Map.empty, document_meta := [],
     conversation_history := [], active_dataset_id := None\<rparr>"

text \<open>\<open>not store.active_dataset_id\<close>: no id, or the empty string.\<close>

definition no_dataset :: "state \<Rightarrow> bool" where
  "no_dataset st = (case active_dataset_id st of None \<Rightarrow> True | Some a \<Rightarrow> a = [])"

text \<open>\<open>store.data_frames[store.active_dataset_id]\<close>: a missing id raises \<open>KeyError\<close>.\<close>

definition lookup_active :: "state \<Rightarrow> nat outcome" where
  "lookup_active st =
     (case active_dataset_id st of
        None \<Rightarrow> Raises (KeyError ''None'')
      | Some a \<Rightarrow> (case data_frames st a of None \<Rightarrow> Raises (KeyError a) | Some r \<Rightarrow> Returns r))"

section \<open>Collaborators\<close>

text \<open>
  What a script leaves behind in \<open>local_vars\<close>: a DataFrame, a Series (its label/value
  pairs) or anything else.
\<close>

datatype script_value = Frame dataframe | Series pydict | Plain pyval

datatype script_end = Finished "string \<rightharpoonup> script_value" | Failed pyexc

text \<open>
  What running a script on a table does when nothing interrupts it: the seconds it needs
  (\<open>None\<close>: it never finishes), how it ends, whether it catches the exception that the
  alarm handler raises inside it (a bare \<open>except\<close> does) and carries on, and the contents
  of the DataFrame object bound to \<open>df\<close> when \<open>exec\<close> is left (scripts may change it in
  place).
\<close>

record script_run =
  run_seconds :: "nat option"
  run_end :: script_end
  traps_timeout :: bool
  final_frame :: dataframe

text \<open>
  A tool call of the model (\<open>id\<close>, \<open>function.name\<close>, \<open>function.arguments\<close>, the
  arguments being JSON text), the message of a model response, and the entries of the
  prompt: a plain role/content message, the assistant's message object with its tool
  calls, and a tool-output message (\<open>name\<close>, \<open>content\<close>, \<open>tool_call_id\<close>).
\<close>

record tool_call =
  call_id :: string
  fn_name :: string
  fn_arguments :: string

record reply =
  content :: "string option"
  tool_calls :: "tool_call list"

datatype message =
    Msg string string
  | AssistantMsg reply
  | ToolMsg string string string

text \<open>
  Everything the core calls but does not define: the data engine (\<open>services.data_engine\<close>),
  the knowledge base search, the Python interpreter behind \<open>exec\<close>, plotly's serializer,
  \<open>traceback.format_exc\<close>, whether \<open>signal.signal\<close> can install the alarm handler (Unix,
  main thread), the API key, the model provider (its second argument tells whether the tools
  are offered), \<open>json.loads\<close> and \<open>json.dumps\<close>, and the wording of the system prompt.
  Each is a function of its arguments; a call may raise or hang.
\<close>

record world =
  filter_data :: "dataframe \<Rightarrow> pyval \<Rightarrow> dataframe outcome"
  aggregate_data :: "dataframe \<Rightarrow> pyval \<Rightarrow> pyval \<Rightarrow> pyval \<Rightarrow> dataframe outcome"
  describe_data :: "dataframe \<Rightarrow> pydict outcome"
  generate_plot :: "dataframe \<Rightarrow> pyval \<Rightarrow> pyval \<Rightarrow> pyval \<Rightarrow> pyval \<Rightarrow> string outcome"
  kb_search :: "pyval \<Rightarrow> pyval \<Rightarrow> pyval outcome"
  script_behaviour :: "pyval \<Rightarrow> dataframe \<Rightarrow> script_run"
  to_json :: "script_value \<Rightarrow> string outcome"
  format_exc :: "pyexc \<Rightarrow> string"
  alarm_available :: bool
  api_key :: string
  complete :: "message list \<Rightarrow> bool \<Rightarrow> reply outcome"
  json_loads :: "string \<Rightarrow> pyval outcome"
  json_dumps :: "pydict \<Rightarrow> string outcome"
  prompt_text :: "string \<Rightarrow> string \<Rightarrow> string"
  dataset_text :: "pyval \<Rightarrow> dataframe \<Rightarrow> string"
  documents_text :: "string list \<Rightarrow> string"

section \<open>The sandbox (services/sandbox.py)\<close>

definition timeout_handler :: "'a outcome" where
  "timeout_handler = Raises (SandboxTimeout ''Code execution timed out (10s limit).'')"

text \<open>
  \<open>exec(code, allowed_globals, local_vars)\<close> under the alarm, \<open>alarm\<close> being the seconds it
  was set to, if it was set. The alarm goes off once, when the script is still running
  after that many seconds; unless the script traps it, the handler's exception leaves
  \<open>exec\<close>. Otherwise the script runs to its own end, or forever. Time is counted in whole
  seconds, and the statements that follow \<open>exec\<close> in the \<open>try\<close> block take none.
\<close>

definition py_exec :: "nat option \<Rightarrow> script_run \<Rightarrow> (string \<rightharpoonup> script_value) outcome" where
  "py_exec alarm run =
     (if (case alarm of
            None \<Rightarrow> False
          | Some t \<Rightarrow> \<not> traps_timeout run \<and> (case run_seconds run of None \<Rightarrow> True | Some d \<Rightarrow> t \<le> d))
      then timeout_handler
      else (case run_seconds run of
              None \<Rightarrow> Hangs
            | Some d \<Rightarrow> (case run_end run of Finished l \<Rightarrow> Returns l | Failed e \<Rightarrow> Raises e)))"

text \<open>
  The statements of the \<open>try\<close> block after \<open>exec\<close>: the output so far is returned with
  the outcome, since an exception leaves the keys already written in place.
\<close>

definition extract_fig :: "world \<Rightarrow> (string \<rightharpoonup> script_value) \<Rightarrow> pydict \<Rightarrow> unit outcome \<times> pydict" where
  "extract_fig w local_vars output =
     (case local_vars ''fig'' of
        None \<Rightarrow> (Returns (), output)
      | Some fig \<Rightarrow>
          (case to_json w fig of
             Returns j \<Rightarrow> (Returns (), dset output ''plot_json'' (PStr j))
           | Raises e \<Rightarrow> (Raises e, output)
           | Hangs \<Rightarrow> (Hangs, output)))"

definition extract_result :: "(string \<rightharpoonup> script_value) \<Rightarrow> pydict \<Rightarrow> pydict" where
  "extract_result local_vars output =
     (case local_vars ''result'' of
        None \<Rightarrow> output
      | Some (Frame res) \<Rightarrow>
          dset output ''result''
            (PDict [(PStr ''data'', to_dict_records (fillna (PStr []) (head 100 res))),
                    (PStr ''columns'', PList (columns res)),
                    (PStr ''row_count'', PInt (len_df res))])
      | Some (Series res) \<Rightarrow> dset output ''result'' (PDict res)
      | Some (Plain res) \<Rightarrow> dset output ''result'' res)"

definition try_block :: "world \<Rightarrow> nat option \<Rightarrow> script_run \<Rightarrow> pydict \<Rightarrow> unit outcome \<times> pydict" where
  "try_block w alarm run output =
     (case py_exec alarm run of
        Raises e \<Rightarrow> (Raises e, output)
      | Hangs \<Rightarrow> (Hangs, output)
      | Returns local_vars \<Rightarrow>
          (case extract_fig w local_vars output of
             (Returns u, output1) \<Rightarrow> (Returns (), extract_result local_vars output1)
           | (Raises e, output1) \<Rightarrow> (Raises e, output1)
           | (Hangs, output1) \<Rightarrow> (Hangs, output1)))"

text \<open>
  \<open>execute_code(code, df, timeout_seconds)\<close>, \<open>df\<close> being the reference of the caller's
  DataFrame. \<open>df.copy()\<close> allocates a new object holding the same table; the script runs
  with that object bound to \<open>df\<close> and may change it in place. \<open>signal.alarm(0)\<close> sets no
  alarm, and no alarm is set where the handler cannot be installed. The \<open>except\<close> clauses
  turn a timeout and any other \<open>Exception\<close> into the \<open>error\<close> key; anything else leaves
  the function as it came.
\<close>

definition execute_code :: "world \<Rightarrow> pyval \<Rightarrow> nat \<Rightarrow> nat \<Rightarrow> state \<Rightarrow> pydict outcome \<times> state" where
  "execute_code w code df timeout_seconds st =
     (let bound = next_ref st;
          st1 = st\<lparr>heap := (heap st)(bound := heap st df), next_ref := Suc bound\<rparr>;
          alarm = (if alarm_available w \<and> 0 < timeout_seconds then Some timeout_seconds else None);
          output = [(PStr ''result'', PNone), (PStr ''plot_json'', PNone), (PStr ''error'', PNone)];
          run = script_behaviour w code (heap st1 bound);
          st2 = st1\<lparr>heap := (heap st1)(bound := final_frame run)\<rparr>
      in (case try_block w alarm run output of
            (Returns u, output1) \<Rightarrow> (Returns output1, st2)
          | (Raises (SandboxTimeout m), output1) \<Rightarrow>
              (Returns (dset output1 ''error'' (PStr ''Code execution timed out (10s limit).'')), st2)
          | (Raises e, output1) \<Rightarrow>
              (if is_Exception e then (Returns (dset output1 ''error'' (PStr (format_exc w e))), st2)
               else (Raises e, st2))
          | (Hangs, output1) \<Rightarrow> (Hangs, st2)))"

section \<open>The dispatcher (services/llm.py)\<close>

text \<open>The tool names of \<open>TOOLS\<close> with the arguments each schema lists as required.\<close>

definition TOOLS :: "(string \<times> string list) list" where
  "TOOLS =
     [(''filter_data'', [''conditions'']),
      (''aggregate_data'', [''group_column'', ''value_column'', ''agg_func'']),
      (''describe_data'', []),
      (''generate_plot'', [''plot_type'', ''x_column'']),
      (''search_documents'', [''query'']),
      (''execute_pandas_code'', [''code''])]"

definition no_dataset_loaded :: pydict where
  "no_dataset_loaded = [(PStr ''error'', PStr ''No dataset loaded.'')]"

text \<open>
  \<open>_execute_tool(name, args)\<close>. Only the sandbox branch touches the state (it allocates
  the copy); the state is returned so that this can be checked rather than assumed.
\<close>

definition execute_tool :: "world \<Rightarrow> string \<Rightarrow> pyval \<Rightarrow> state \<Rightarrow> pydict outcome \<times> state" where
  "execute_tool w name args st =
     (if name = ''filter_data'' then
        (if no_dataset st then (Returns no_dataset_loaded, st)
         else (obind (lookup_active st) (\<lambda>df.
               obind (getitem args ''conditions'') (\<lambda>conditions.
               obind (filter_data w (heap st df) conditions) (\<lambda>result.
               Returns [(PStr ''data'', to_dict_records (fillna (PStr []) (head 50 result))),
                        (PStr ''columns'', PList (columns result)),
                        (PStr ''row_count'', PInt (len_df result))]))), st))
      else if name = ''aggregate_data'' then
        (if no_dataset st then (Returns no_dataset_loaded, st)
         else (obind (lookup_active st) (\<lambda>df.
               obind (getitem args ''group_column'') (\<lambda>group_column.
               obind (getitem args ''value_column'') (\<lambda>value_column.
               obind (get_or args ''agg_func'' (PStr ''mean'')) (\<lambda>agg_func.
               obind (aggregate_data w (heap st df) group_column value_column agg_func) (\<lambda>result.
               Returns [(PStr ''data'', to_dict_records (fillna (PStr []) result)),
                        (PStr ''columns'', PList (columns result)),
                        (PStr ''row_count'', PInt (len_df result))]))))), st))
      else if name = ''describe_data'' then
        (if no_dataset st then (Returns no_dataset_loaded, st)
         else (obind (lookup_active st) (\<lambda>df. describe_data w (heap st df)), st))
      else if name = ''generate_plot'' then
        (if no_dataset st then (Returns no_dataset_loaded, st)
         else (obind (lookup_active st) (\<lambda>df.
               obind (getitem args ''plot_type'') (\<lambda>plot_type.
               obind (getitem args ''x_column'') (\<lambda>x_column.
               obind (get_or args ''y_column'' PNone) (\<lambda>y_column.
               obind (get_or args ''title'' PNone) (\<lambda>title.
               obind (generate_plot w (heap st df) plot_type x_column y_column title) (\<lambda>plot_json.
               obind (getitem args ''plot_type'') (\<lambda>plot_type2.
               Returns [(PStr ''plot_json'', PStr plot_json),
                        (PStr ''plot_type'', plot_type2)]))))))), st))
      else if name = ''search_documents'' then
        (obind (getitem args ''query'') (\<lambda>query.
         obind (get_or args ''top_k'' (PInt 5)) (\<lambda>top_k.
         obind (kb_search w query top_k) (\<lambda>results.
         Returns [(PStr ''results'', results)]))), st)
      else if name = ''execute_pandas_code'' then
        (if no_dataset st then (Returns no_dataset_loaded, st)
         else (case lookup_active st of
                 Raises e \<Rightarrow> (Raises e, st)
               | Hangs \<Rightarrow> (Hangs, st)
               | Returns df \<Rightarrow>
                   (case getitem args ''code'' of
                      Raises e \<Rightarrow> (Raises e, st)
                    | Hangs \<Rightarrow> (Hangs, st)
                    | Returns code \<Rightarrow> execute_code w code df 10 st)))
      else (Returns [(PStr ''error'', PStr (''Unknown tool: '' @ name))], st))"

text \<open>\<open>_get_client()\<close>: refuses to build a client without an API key.\<close>

definition get_client :: "world \<Rightarrow> unit outcome" where
  "get_client w =
     (if api_key w = [] then Raises (RuntimeError ''MISTRAL_API_KEY is not set. Add it to backend/.env'')
      else Returns ())"

section \<open>The orchestrator (services/llm.py)\<close>

text \<open>
  \<open>_build_system_prompt()\<close>: the fixed text, followed by a description of the active
  dataset when its id is set and stored, and by the document names when there are any.
\<close>

definition build_system_prompt :: "world \<Rightarrow> state \<Rightarrow> string" where
  "build_system_prompt w st =
     (let dataset_info =
            (case active_dataset_id st of
               None \<Rightarrow> []
             | Some a \<Rightarrow>
                 (if a = [] then []
                  else (case data_frames st a of
                          None \<Rightarrow> []
                        | Some df \<Rightarrow>
                            dataset_text w
                              (dget_default (case data_meta st a of None \<Rightarrow> [] | Some meta \<Rightarrow> meta)
                                 ''filename'' (PStr ''unknown''))
                              (heap st df))));
          doc_names = map (\<lambda>m. doc_name (snd m)) (document_meta st);
          doc_info = (if doc_names \<noteq> [] then documents_text w doc_names else [])
      in prompt_text w dataset_info doc_info)"

fun turn_role :: "turn \<Rightarrow> string" where
  "turn_role (UserTurn c) = ''user''"
| "turn_role (AssistantTurn c p d cs) = ''assistant''"

fun turn_content :: "turn \<Rightarrow> string" where
  "turn_content (UserTurn c) = c"
| "turn_content (AssistantTurn c p d cs) = c"

text \<open>The slice \<open>xs[-n:]\<close>: the last \<open>n\<close> elements, all of them when there are fewer.\<close>

definition last_n :: "nat \<Rightarrow> 'a list \<Rightarrow> 'a list" where
  "last_n n xs = drop (length xs - n) xs"

text \<open>The messages of the first model call, as \<open>chat\<close> builds them.\<close>

definition build_messages :: "world \<Rightarrow> state \<Rightarrow> string \<Rightarrow> message list" where
  "build_messages w st user_message =
     Msg ''system'' (build_system_prompt w st)
       # map (\<lambda>h. Msg (turn_role h) (turn_content h)) (last_n 20 (conversation_history st))
       @ [Msg ''user'' user_message]"

text \<open>The response under construction; \<open>resp_text\<close> is its key \<open>text\<close>.\<close>

record response_data =
  resp_text :: string
  plot_json :: pyval
  table_data :: pyval
  table_columns :: pyval

text \<open>The three \<open>if\<close> statements that copy a tool result's chart and table into the response.\<close>

definition fold_tool_result :: "pydict \<Rightarrow> response_data \<Rightarrow> response_data" where
  "fold_tool_result tool_result rd =
     (let rd1 = (case dget tool_result ''plot_json'' of
                   None \<Rightarrow> rd
                 | Some p \<Rightarrow> if truthy p then rd\<lparr>plot_json := p\<rparr> else rd);
          rd2 = (case dget tool_result ''data'' of
                   Some (PList l) \<Rightarrow>
                     rd1\<lparr>table_data := PList l,
                         table_columns := dget_default tool_result ''columns'' (PList [])\<rparr>
                 | _ \<Rightarrow> rd1);
          rd3 = (case dget tool_result ''result'' of
                   Some (PDict inner) \<Rightarrow>
                     (case dget inner ''data'' of
                        None \<Rightarrow> rd2
                      | Some d \<Rightarrow>
                          rd2\<lparr>table_data := d,
                              table_columns := dget_default inner ''columns'' (PList [])\<rparr>)
                 | _ \<Rightarrow> rd2)
      in rd3)"

text \<open>
  The \<open>for\<close> loop over the tool calls. It returns how it ended together with the
  messages, the response and the state as they stand then: an exception leaves the loop
  with everything written so far in place.
\<close>

fun run_tools :: "world \<Rightarrow> tool_call list \<Rightarrow> message list \<Rightarrow> response_data \<Rightarrow> state
    \<Rightarrow> unit outcome \<times> message list \<times> response_data \<times> state" where
  "run_tools w [] messages rd st = (Returns (), messages, rd, st)"
| "run_tools w (tc # tcs) messages rd st =
     (case json_loads w (fn_arguments tc) of
        Raises e \<Rightarrow> (Raises e, messages, rd, st)
      | Hangs \<Rightarrow> (Hangs, messages, rd, st)
      | Returns fn_args \<Rightarrow>
          (case execute_tool w (fn_name tc) fn_args st of
             (Raises e, st1) \<Rightarrow> (Raises e, messages, rd, st1)
           | (Hangs, st1) \<Rightarrow> (Hangs, messages, rd, st1)
           | (Returns tool_result, st1) \<Rightarrow>
               (let rd1 = fold_tool_result tool_result rd
                in (case json_dumps w tool_result of
                      Raises e \<Rightarrow> (Raises e, messages, rd1, st1)
                    | Hangs \<Rightarrow> (Hangs, messages, rd1, st1)
                    | Returns s \<Rightarrow>
                        run_tools w tcs (messages @ [ToolMsg (fn_name tc) s (call_id tc)]) rd1 st1))))"

text \<open>\<open>message.content or ""\<close>.\<close>

definition content_or_empty :: "reply \<Rightarrow> string" where
  "content_or_empty r = (case content r of None \<Rightarrow> [] | Some c \<Rightarrow> c)"

text \<open>The body of the \<open>try\<close> statement of \<open>chat\<close>.\<close>

definition try_chat :: "world \<Rightarrow> message list \<Rightarrow> response_data \<Rightarrow> state
    \<Rightarrow> unit outcome \<times> response_data \<times> state" where
  "try_chat w messages rd st =
     (case complete w messages True of
        Raises e \<Rightarrow> (Raises e, rd, st)
      | Hangs \<Rightarrow> (Hangs, rd, st)
      | Returns assistant_msg \<Rightarrow>
          (if tool_calls assistant_msg \<noteq> [] then
             (case run_tools w (tool_calls assistant_msg) (messages @ [AssistantMsg assistant_msg]) rd st of
                (Raises e, messages1, rd1, st1) \<Rightarrow> (Raises e, rd1, st1)
              | (Hangs, messages1, rd1, st1) \<Rightarrow> (Hangs, rd1, st1)
              | (Returns u, messages1, rd1, st1) \<Rightarrow>
                  (case complete w messages1 False of
                     Raises e \<Rightarrow> (Raises e, rd1, st1)
                   | Hangs \<Rightarrow> (Hangs, rd1, st1)
                   | Returns response \<Rightarrow> (Returns (), rd1\<lparr>resp_text := content_or_empty response\<rparr>, st1)))
           else (Returns (), rd\<lparr>resp_text := content_or_empty assistant_msg\<rparr>, st)))"

text \<open>The end of \<open>chat\<close>: the assistant turn is stored and the response returned.\<close>

definition store_response :: "response_data \<Rightarrow> state \<Rightarrow> response_data outcome \<times> state" where
  "store_response rd st =
     (Returns rd,
      st\<lparr>conversation_history := conversation_history st
           @ [AssistantTurn (resp_text rd) (plot_json rd) (table_data rd) (table_columns rd)]\<rparr>)"

text \<open>
  \<open>chat(user_message)\<close>. The client is built first, outside the \<open>try\<close>; the user turn is
  stored before the first model call; \<open>except Exception\<close> turns a failure of the body into
  the text of the response.
\<close>

definition chat :: "world \<Rightarrow> string \<Rightarrow> state \<Rightarrow> response_data outcome \<times> state" where
  "chat w user_message st =
     (case get_client w of
        Raises e \<Rightarrow> (Raises e, st)
      | Hangs \<Rightarrow> (Hangs, st)
      | Returns client \<Rightarrow>
          (let messages = build_messages w st user_message;
               st1 = st\<lparr>conversation_history := conversation_history st @ [UserTurn user_message]\<rparr>;
               response = \<lparr>resp_text = [], plot_json = PNone, table_data = PNone, table_columns = PNone\<rparr>
           in (case try_chat w messages response st1 of
                 (Returns u, rd, st2) \<Rightarrow> store_response rd st2
               | (Raises e, rd, st2) \<Rightarrow>
                   (if is_Exception e
                    then store_response (rd\<lparr>resp_text := ''I encountered an error: '' @ str_exc e\<rparr>) st2
                    else (Raises e, st2))
               | (Hangs, rd, st2) \<Rightarrow> (Hangs, st2))))"

section \<open>The chat router (routers/chat.py)\<close>

record chat_history_item =
  item_role :: string
  item_content :: string
  item_plot_json :: pyval
  item_table_data :: pyval
  item_table_columns :: pyval

text \<open>\<open>h.get(k)\<close> on a stored turn: a user turn has only \<open>role\<close> and \<open>content\<close>.\<close>

fun history_item :: "turn \<Rightarrow> chat_history_item" where
  "history_item (UserTurn c) =
     \<lparr>item_role = ''user'', item_content = c, item_plot_json = PNone, item_table_data = PNone,
      item_table_columns = PNone\<rparr>"
| "history_item (AssistantTurn c p d cs) =
     \<lparr>item_role = ''assistant'', item_content = c, item_plot_json = p, item_table_data = d,
      item_table_columns = cs\<rparr>"

definition get_history :: "state \<Rightarrow> chat_history_item list" where
  "get_history st = map history_item (conversation_history st)"

definition clear_history :: "state \<Rightarrow> state" where
  "clear_history st = st\<lparr>conversation_history := []\<rparr>"

section \<open>Notions used in the statements\<close>

text \<open>The tools whose branch begins with the test for an active dataset.\<close>

definition dataset_tools :: "string list" where
  "dataset_tools =
     [''filter_data'', ''aggregate_data'', ''describe_data'', ''generate_plot'', ''execute_pandas_code'']"

text \<open>The value a call returned, if it returned.\<close>

fun returned :: "'a outcome \<Rightarrow> 'a option" where
  "returned (Returns x) = Some x"
| "returned (Raises e) = None"
| "returned Hangs = None"

text \<open>
  A call that comes back to a caller who catches \<open>Exception\<close>: it returns, or raises an
  \<open>Exception\<close>.
\<close>

fun tame :: "'a outcome \<Rightarrow> bool" where
  "tame (Returns x) = True"
| "tame (Raises e) = is_Exception e"
| "tame Hangs = False"

text \<open>The number of previewed rows of a table envelope, and the table nested under \<open>result\<close>.\<close>

definition preview_rows :: "pydict \<Rightarrow> nat option" where
  "preview_rows env = (case dget env ''data'' of Some (PList l) \<Rightarrow> Some (length l) | _ \<Rightarrow> None)"

definition nested_result :: "pydict \<Rightarrow> pydict option" where
  "nested_result env = (case dget env ''result'' of Some (PDict inner) \<Rightarrow> Some inner | _ \<Rightarrow> None)"

text \<open>The output \<open>execute_code\<close> starts from, and the alarm it sets.\<close>

definition empty_output :: pydict where
  "empty_output = [(PStr ''result'', PNone), (PStr ''plot_json'', PNone), (PStr ''error'', PNone)]"

definition alarm_of :: "world \<Rightarrow> nat \<Rightarrow> nat option" where
  "alarm_of w t = (if alarm_available w \<and> 0 < t then Some t else None)"




text \<open>
  The chart and the table that a tool result contributes to the response, if any: the
  conditions of the three \<open>if\<close> statements of the loop, the nested \<open>result\<close> table being
  written after the outer one.
\<close>

definition chart_of :: "pydict \<Rightarrow> pyval option" where
  "chart_of env =
     (case dget env ''plot_json'' of None \<Rightarrow> None | Some p \<Rightarrow> if truthy p then Some p else None)"

definition outer_table_of :: "pydict \<Rightarrow> (pyval \<times> pyval) option" where
  "outer_table_of env =
     (case dget env ''data'' of
        Some (PList l) \<Rightarrow> Some (PList l, dget_default env ''columns'' (PList []))
      | _ \<Rightarrow> None)"

definition inner_table_of :: "pydict \<Rightarrow> (pyval \<times> pyval) option" where
  "inner_table_of env =
     (case dget env ''result'' of
        Some (PDict inner) \<Rightarrow>
          (case dget inner ''data'' of
             None \<Rightarrow> None
           | Some d \<Rightarrow> Some (d, dget_default inner ''columns'' (PList [])))
      | _ \<Rightarrow> None)"

definition table_of :: "pydict \<Rightarrow> (pyval \<times> pyval) option" where
  "table_of env = (case inner_table_of env of None \<Rightarrow> outer_table_of env | Some t \<Rightarrow> Some t)"

text \<open>
  The tool results that the loop folds into the response, in the order of the tool calls:
  the envelopes of the calls up to the first one that fails to parse, dispatch or serialize
  (an envelope that fails to serialize has been folded already).
\<close>

fun tool_results :: "world \<Rightarrow> tool_call list \<Rightarrow> state \<Rightarrow> pydict list" where
  "tool_results w [] st = []"
| "tool_results w (tc # tcs) st =
     (case json_loads w (fn_arguments tc) of
        Returns fn_args \<Rightarrow>
          (case execute_tool w (fn_name tc) fn_args st of
             (Returns tool_result, st1) \<Rightarrow>
               tool_result # (case json_dumps w tool_result of
                                Returns s \<Rightarrow> tool_results w tcs st1
                              | _ \<Rightarrow> [])
           | _ \<Rightarrow> [])
      | _ \<Rightarrow> [])"

text \<open>The state in which the body of \<open>chat\<close> runs: the user turn has been stored.\<close>

definition with_user_turn :: "state \<Rightarrow> string \<Rightarrow> state" where
  "with_user_turn st user_message =
     st\<lparr>conversation_history := conversation_history st @ [UserTurn user_message]\<rparr>"

section \<open>A concrete process for the examples\<close>

text \<open>
  A table of 120 rows, no two alike in the first column, and a store that holds it as the
  active dataset \<open>d1\<close>. The collaborators answer at once: the filter keeps every row, the
  aggregation yields one row per row of its input, a plot is named after its type. Four
  scripts are told apart: one that never ends, one that fails on an undefined name, one
  that binds \<open>fig\<close> to something plotly cannot serialize, and any other, which finishes
  within a second, empties the table bound to \<open>df\<close> in place and binds \<open>result\<close> to the
  table as it found it. The model asks for a bar chart and then a pie chart when the user
  says \<open>two charts\<close>, and answers \<open>ok\<close> otherwise.
\<close>

definition demo_frame :: dataframe where
  "demo_frame =
     \<lparr>columns = [PStr ''gene'', PStr ''expression''],
      rows = map (\<lambda>i. [Val (PInt (int i)), NaN]) [0..<120]\<rparr>"

definition demo_state :: state where
  "demo_state =
     \<lparr>heap = (\<lambda>r. demo_frame), next_ref = 1,
      data_frames = [''d1'' \<mapsto> 0],
      data_meta = [''d1'' \<mapsto> [(PStr ''filename'', PStr ''genes.csv'')]],
      active_dataset_id = Some ''d1'',
      document_meta = [],
      conversation_history = []\<rparr>"

definition demo_run :: "dataframe \<Rightarrow> script_run" where
  "demo_run df =
     \<lparr>run_seconds = Some 0, run_end = Finished [''result'' \<mapsto> Frame df], traps_timeout = False,
      final_frame = df\<lparr>rows := []\<rparr>\<rparr>"

definition endless_run :: "dataframe \<Rightarrow> script_run" where
  "endless_run df =
     \<lparr>run_seconds = None, run_end = Finished Map.empty, traps_timeout = False, final_frame = df\<rparr>"

definition failing_run :: "dataframe \<Rightarrow> script_run" where
  "failing_run df =
     \<lparr>run_seconds = Some 0, run_end = Failed (OtherException ''NameError: name x is not defined''),
      traps_timeout = False, final_frame = df\<rparr>"

definition bad_fig_run :: "dataframe \<Rightarrow> script_run" where
  "bad_fig_run df =
     \<lparr>run_seconds = Some 0, run_end = Finished [''fig'' \<mapsto> Plain (PInt 1)], traps_timeout = False,
      final_frame = df\<rparr>"

definition demo_scripts :: "pyval \<Rightarrow> dataframe \<Rightarrow> script_run" where
  "demo_scripts code df =
     (if code = PStr ''while True: pass'' then endless_run df
      else if code = PStr ''result = x'' then failing_run df
      else if code = PStr ''fig = 1'' then bad_fig_run df
      else demo_run df)"

definition demo_complete :: "message list \<Rightarrow> bool \<Rightarrow> reply outcome" where
  "demo_complete messages tools =
     (if tools \<and> last messages = Msg ''user'' ''two charts''
      then Returns \<lparr>content = None,
             tool_calls = [\<lparr>call_id = ''c1'', fn_name = ''generate_plot'', fn_arguments = ''bar''\<rparr>,
                           \<lparr>call_id = ''c2'', fn_name = ''generate_plot'', fn_arguments = ''pie''\<rparr>]\<rparr>
      else Returns \<lparr>content = Some ''ok'', tool_calls = []\<rparr>)"

definition demo_world :: world where
  "demo_world =
     \<lparr>filter_data = (\<lambda>df conditions. Returns df),
      aggregate_data = (\<lambda>df group_column value_column agg_func. Returns df),
      describe_data = (\<lambda>df. Returns [(PStr ''count'', PInt (len_df df))]),
      generate_plot = (\<lambda>df plot_type x_col y_col title.
         Returns (''chart:'' @ (case plot_type of PStr s \<Rightarrow> s | _ \<Rightarrow> ''bar''))),
      kb_search = (\<lambda>query top_k. Returns (PList [])),
      script_behaviour = demo_scripts,
      to_json = (\<lambda>fig. case fig of Plain (PStr j) \<Rightarrow> Returns j
         | _ \<Rightarrow> Raises (OtherException ''ValueError: not a figure'')),
      format_exc = str_exc,
      alarm_available = True,
      api_key = ''key'',
      complete = demo_complete,
      json_loads = (\<lambda>s. Returns (PDict [(PStr ''plot_type'', PStr s), (PStr ''x_column'', PStr ''gene'')])),
      json_dumps = (\<lambda>d. Returns ''{}''),
      prompt_text = (\<lambda>dataset_info doc_info. dataset_info @ doc_info),
      dataset_text = (\<lambda>name df. []),
      documents_text = (\<lambda>names. [])\<rparr>"




text \<open>A store whose history holds 25 turns.\<close>

definition long_state :: state where
  "long_state = demo_state\<lparr>conversation_history := map (\<lambda>i. UserTurn (replicate i (CHR ''q''))) [0..<25]\<rparr>"

text \<open>Arguments for the tools: a script that empties the table bound to \<open>df\<close>, a filter, an aggregation.\<close>

definition demo_code_args :: pyval where
  "demo_code_args = PDict [(PStr ''code'', PStr ''df.drop(df.index, inplace=True)'')]"

definition demo_filter_args :: pyval where
  "demo_filter_args = PDict [(PStr ''conditions'', PStr ''expression != 0'')]"

definition demo_agg_args :: pyval where
  "demo_agg_args =
     PDict [(PStr ''group_column'', PStr ''gene''), (PStr ''value_column'', PStr ''expression''),
            (PStr ''agg_func'', PStr ''mean'')]"

section \<open>Soft errors of the dispatcher\<close>

lemma fold_tool_result_error: "fold_tool_result [(PStr ''error'', v)] rd = rd"
  by (simp add: fold_tool_result_def dget_def)

text \<open>
  Claim C7. With no active dataset, each of \<open>filter_data\<close>, \<open>aggregate_data\<close>,
  \<open>describe_data\<close>, \<open>generate_plot\<close> and \<open>execute_pandas_code\<close> returns the envelope that
  holds only the error string \<open>No dataset loaded.\<close>, whatever the arguments; a name that
  is none of the six tools returns the envelope holding only \<open>Unknown tool: name\<close>. Neither
  raises, the state is untouched, and the loop of the orchestrator goes on to the next
  tool call with the response unchanged (provided the arguments parse and the envelope
  serializes).
\<close>

theorem execute_tool_soft_errors:
  "(no_dataset st \<and> name \<in> set dataset_tools
      \<longrightarrow> execute_tool w name args st = (Returns [(PStr ''error'', PStr ''No dataset loaded.'')], st))
   \<and> (name \<notin> set (map fst TOOLS)
      \<longrightarrow> execute_tool w name args st
          = (Returns [(PStr ''error'', PStr (''Unknown tool: '' @ name))], st))
   \<and> (no_dataset st \<and> fn_name tc \<in> set dataset_tools
       \<and> json_loads w (fn_arguments tc) = Returns a
       \<and> json_dumps w [(PStr ''error'', PStr ''No dataset loaded.'')] = Returns s
      \<longrightarrow> run_tools w (tc # tcs) messages rd st
          = run_tools w tcs (messages @ [ToolMsg (fn_name tc) s (call_id tc)]) rd st)
   \<and> (fn_name tc \<notin> set (map fst TOOLS)
       \<and> json_loads w (fn_arguments tc) = Returns a
       \<and> json_dumps w [(PStr ''error'', PStr (''Unknown tool: '' @ fn_name tc))] = Returns s
      \<longrightarrow> run_tools w (tc # tcs) messages rd st
          = run_tools w tcs (messages @ [ToolMsg (fn_name tc) s (call_id tc)]) rd st)"
proof -
  have nd: "execute_tool w n b st = (Returns [(PStr ''error'', PStr ''No dataset loaded.'')], st)"
    if "no_dataset st" "n \<in> set dataset_tools" for n b
    using that by (auto simp: execute_tool_def no_dataset_loaded_def dataset_tools_def)
  have un: "execute_tool w n b st = (Returns [(PStr ''error'', PStr (''Unknown tool: '' @ n))], st)"
    if "n \<notin> set (map fst TOOLS)" for n b
    using that by (simp add: execute_tool_def TOOLS_def)
  show ?thesis
    using nd [of name args] un [of name args] nd [of "fn_name tc" a] un [of "fn_name tc" a]
    by (simp add: fold_tool_result_error)
qed

theorem execute_tool_soft_errors_witness:
  "no_dataset (clear_all demo_state) \<and> ''describe_data'' \<in> set dataset_tools
   \<and> execute_tool demo_world ''describe_data'' (PDict []) (clear_all demo_state)
       = (Returns [(PStr ''error'', PStr ''No dataset loaded.'')], clear_all demo_state)
   \<and> ''plot_everything'' \<notin> set (map fst TOOLS)
   \<and> execute_tool demo_world ''plot_everything'' (PDict []) (clear_all demo_state)
       = (Returns [(PStr ''error'', PStr ''Unknown tool: plot_everything'')], clear_all demo_state)"
proof -
  have h1: "no_dataset (clear_all demo_state)"
    by (simp add: no_dataset_def clear_all_def)
  have h2: "''describe_data'' \<in> set dataset_tools"
    by (simp add: dataset_tools_def)
  have h3: "''plot_everything'' \<notin> set (map fst TOOLS)"
    by (simp add: TOOLS_def)
  show ?thesis
    using h1 h2 h3
      execute_tool_soft_errors [of "clear_all demo_state" "''describe_data''" demo_world "PDict []"]
      execute_tool_soft_errors [of "clear_all demo_state" "''plot_everything''" demo_world "PDict []"]
    by simp
qed

section \<open>What the dispatcher leaves of the state\<close>

text \<open>
  The sandbox allocates one object, the copy, and writes only there; every other branch
  of the dispatcher returns the state it got. The envelope depends on the state only
  through the active id, the stored reference and the table behind it.
\<close>

lemma execute_code_snd:
  "snd (execute_code w code df t st) =
     st\<lparr>heap := (heap st)(next_ref st := final_frame (script_behaviour w code (heap st df))),
        next_ref := Suc (next_ref st)\<rparr>"
  by (simp add: execute_code_def Let_def split: prod.splits outcome.splits pyexc.splits)

lemma execute_code_fst_cong:
  "heap st1 df = heap st df \<Longrightarrow>
     fst (execute_code w code df t st1) = fst (execute_code w code df t st)"
  by (simp add: execute_code_def Let_def split: prod.splits outcome.splits pyexc.splits)

lemma execute_tool_snd:
  "snd (execute_tool w name args st) = st \<or>
   (\<exists>code df. lookup_active st = Returns df \<and> snd (execute_tool w name args st) = snd (execute_code w code df 10 st))"
  by (auto simp: execute_tool_def split: outcome.splits)

lemma execute_tool_store:
  fixes st w name args
  defines "st' \<equiv> snd (execute_tool w name args st)"
  shows "data_frames st' = data_frames st \<and> data_meta st' = data_meta st
     \<and> active_dataset_id st' = active_dataset_id st \<and> document_meta st' = document_meta st
     \<and> conversation_history st' = conversation_history st
     \<and> next_ref st \<le> next_ref st'
     \<and> (\<forall>r<next_ref st. heap st' r = heap st r)"
  using execute_tool_snd[of w name args st] unfolding st'_def
  by (auto simp: execute_code_snd)

lemma execute_tool_fst_cong:
  assumes "data_frames st1 = data_frames st" "active_dataset_id st1 = active_dataset_id st"
    and "\<And>r. lookup_active st = Returns r \<Longrightarrow> heap st1 r = heap st r"
  shows "fst (execute_tool w name args st1) = fst (execute_tool w name args st)"
proof -
  have l: "lookup_active st1 = lookup_active st" using assms(1,2) by (simp add: lookup_active_def split: option.splits)
  have n: "no_dataset st1 = no_dataset st" using assms(2) by (simp add: no_dataset_def)
  show ?thesis
  proof (cases "lookup_active st")
    case (Returns r)
    then have h: "heap st1 r = heap st r" using assms(3) by simp
    show ?thesis using Returns l n h execute_code_fst_cong[OF h]
      by (simp add: execute_tool_def split: outcome.splits)
  next
    case (Raises e)
    then show ?thesis using l n by (simp add: execute_tool_def)
  next
    case Hangs
    then show ?thesis using l n by (simp add: execute_tool_def)
  qed
qed

lemma demo_lookup: "lookup_active demo_state = Returns 0"
  by (simp add: lookup_active_def demo_state_def)


section \<open>Clearing\<close>

text \<open>
  Claim C3, as amended. The clear operation of the router, \<open>clear_history\<close>, empties the
  conversation history (the history listing is then empty) and leaves the active dataset
  and the stored tables as they were, so every tool answers as before. The reset of the
  store, \<open>clear_all\<close>, empties the history and sets the active dataset to none, after which
  every tool that needs a dataset returns the error \<open>No dataset loaded.\<close>
\<close>

theorem clear_history_and_clear_all:
  "get_history (clear_history st) = []
   \<and> conversation_history (clear_history st) = []
   \<and> active_dataset_id (clear_history st) = active_dataset_id st
   \<and> data_frames (clear_history st) = data_frames st
   \<and> fst (execute_tool w name args (clear_history st)) = fst (execute_tool w name args st)
   \<and> get_history (clear_all st) = []
   \<and> conversation_history (clear_all st) = []
   \<and> active_dataset_id (clear_all st) = None
   \<and> (name \<in> set dataset_tools
        \<longrightarrow> execute_tool w name args (clear_all st)
            = (Returns [(PStr ''error'', PStr ''No dataset loaded.'')], clear_all st))"
proof -
  have a: "fst (execute_tool w name args (clear_history st)) = fst (execute_tool w name args st)"
    by (rule execute_tool_fst_cong) (simp_all add: clear_history_def)
  have b: "no_dataset (clear_all st)"
    by (simp add: no_dataset_def clear_all_def)
  have c: "name \<in> set dataset_tools
        \<longrightarrow> execute_tool w name args (clear_all st)
            = (Returns [(PStr ''error'', PStr ''No dataset loaded.'')], clear_all st)"
    using b by (auto simp: execute_tool_def no_dataset_loaded_def dataset_tools_def)
  show ?thesis
    using a c by (simp add: get_history_def clear_history_def clear_all_def)
qed

theorem clear_history_and_clear_all_witness:
  "''generate_plot'' \<in> set dataset_tools
   \<and> execute_tool demo_world ''generate_plot'' (PDict []) (clear_all demo_state)
       = (Returns [(PStr ''error'', PStr ''No dataset loaded.'')], clear_all demo_state)
   \<and> get_history (clear_history demo_state) = []"
proof -
  have h: "''generate_plot'' \<in> set dataset_tools"
    by (simp add: dataset_tools_def)
  show ?thesis
    using h clear_history_and_clear_all [of demo_state demo_world "''generate_plot''" "PDict []"]
    by simp
qed

text \<open>
  The claim as stated fails for the router's clear operation: the dataset \<open>d1\<close> is still
  active afterwards and \<open>describe_data\<close> still answers with its statistics.
\<close>

theorem clear_history_keeps_dataset_counterexample:
  "active_dataset_id (clear_history demo_state) = Some ''d1''
   \<and> fst (execute_tool demo_world ''describe_data'' (PDict []) (clear_history demo_state))
       = Returns [(PStr ''count'', PInt 120)]"
  by (simp add: clear_history_def demo_state_def execute_tool_def no_dataset_def lookup_active_def
      demo_world_def len_df_def demo_frame_def)

section \<open>Dispatching twice\<close>



section \<open>The sandbox works on a copy\<close>



section \<open>Facts about the concrete process\<close>

lemma demo_scripts_simps:
  "script_behaviour demo_world (PStr ''while True: pass'') df = endless_run df"
  "script_behaviour demo_world (PStr ''result = x'') df = failing_run df"
  "script_behaviour demo_world (PStr ''fig = 1'') df = bad_fig_run df"
  "script_behaviour demo_world (PStr ''df.drop(df.index, inplace=True)'') df = demo_run df"
  by (simp_all add: demo_world_def demo_scripts_def)

lemma demo_world_simps:
  "alarm_available demo_world" "format_exc demo_world = str_exc"
  "filter_data demo_world df c = Returns df" "aggregate_data demo_world df g v f = Returns df"
  "api_key demo_world = ''key''" "json_dumps demo_world d = Returns ''{}''"
  "json_loads demo_world s = Returns (PDict [(PStr ''plot_type'', PStr s), (PStr ''x_column'', PStr ''gene'')])"
  "complete demo_world = demo_complete"
  "generate_plot demo_world df (PStr s) x y ti = Returns (''chart:'' @ s)"
  "to_json demo_world (Plain (PInt i)) = Raises (OtherException ''ValueError: not a figure'')"
  by (simp_all add: demo_world_def)

lemma demo_state_simps:
  "heap demo_state r = demo_frame" "next_ref demo_state = 1" "\<not> no_dataset demo_state"
  "data_frames demo_state ''d1'' = Some 0" "conversation_history demo_state = []"
  by (simp_all add: demo_state_def no_dataset_def)

section \<open>The output of the sandbox\<close>

lemma execute_code_fst:
  "fst (execute_code w code df t st) =
     (case try_block w (alarm_of w t) (script_behaviour w code (heap st df)) empty_output of
            (Returns u, output1) \<Rightarrow> Returns output1
          | (Raises (SandboxTimeout m), output1) \<Rightarrow>
              Returns (dset output1 ''error'' (PStr ''Code execution timed out (10s limit).''))
          | (Raises e, output1) \<Rightarrow>
              (if is_Exception e then Returns (dset output1 ''error'' (PStr (format_exc w e)))
               else Raises e)
          | (Hangs, output1) \<Rightarrow> Hangs)"
  by (simp add: execute_code_def Let_def alarm_of_def empty_output_def split: prod.splits outcome.splits pyexc.splits)

lemma extract_fig_cases:
  "extract_fig w l empty_output = (Returns (), empty_output) \<and> l ''fig'' = None
   \<or> (\<exists>fig j. l ''fig'' = Some fig \<and> to_json w fig = Returns j
        \<and> extract_fig w l empty_output
            = (Returns (), [(PStr ''result'', PNone), (PStr ''plot_json'', PStr j), (PStr ''error'', PNone)]))
   \<or> (\<exists>fig e. l ''fig'' = Some fig \<and> to_json w fig = Raises e
        \<and> extract_fig w l empty_output = (Raises e, empty_output))
   \<or> (\<exists>fig. l ''fig'' = Some fig \<and> to_json w fig = Hangs
        \<and> extract_fig w l empty_output = (Hangs, empty_output))"
  by (auto simp: extract_fig_def empty_output_def split: option.splits outcome.splits)

lemma extract_result_shape:
  "\<exists>R. extract_result l [(PStr ''result'', PNone), (PStr ''plot_json'', P), (PStr ''error'', PNone)]
        = [(PStr ''result'', R), (PStr ''plot_json'', P), (PStr ''error'', PNone)]
      \<and> (\<forall>res. l ''result'' = Some (Frame res) \<longrightarrow>
           R = PDict [(PStr ''data'', to_dict_records (fillna (PStr []) (head 100 res))),
                    (PStr ''columns'', PList (columns res)),
                    (PStr ''row_count'', PInt (len_df res))])"
  by (auto simp: extract_result_def split: option.splits script_value.splits)

lemma try_block_cases:
  "(\<exists>e. py_exec alarm run = Raises e \<and> try_block w alarm run empty_output = (Raises e, empty_output))
   \<or> (py_exec alarm run = Hangs \<and> try_block w alarm run empty_output = (Hangs, empty_output))
   \<or> (\<exists>l fig e. py_exec alarm run = Returns l \<and> l ''fig'' = Some fig \<and> to_json w fig = Raises e
        \<and> try_block w alarm run empty_output = (Raises e, empty_output))
   \<or> (\<exists>l fig. py_exec alarm run = Returns l \<and> l ''fig'' = Some fig \<and> to_json w fig = Hangs
        \<and> try_block w alarm run empty_output = (Hangs, empty_output))
   \<or> (\<exists>l R P. py_exec alarm run = Returns l
        \<and> try_block w alarm run empty_output
            = (Returns (), [(PStr ''result'', R), (PStr ''plot_json'', P), (PStr ''error'', PNone)])
        \<and> (\<forall>res. l ''result'' = Some (Frame res) \<longrightarrow>
           R = PDict [(PStr ''data'', to_dict_records (fillna (PStr []) (head 100 res))),
                    (PStr ''columns'', PList (columns res)),
                    (PStr ''row_count'', PInt (len_df res))]))"
proof (cases "py_exec alarm run")
  case (Returns l)
  obtain R0 where R0: "extract_result l empty_output
        = [(PStr ''result'', R0), (PStr ''plot_json'', PNone), (PStr ''error'', PNone)]"
      "\<forall>res. l ''result'' = Some (Frame res) \<longrightarrow>
           R0 = PDict [(PStr ''data'', to_dict_records (fillna (PStr []) (head 100 res))),
                    (PStr ''columns'', PList (columns res)),
                    (PStr ''row_count'', PInt (len_df res))]"
    using extract_result_shape [of l PNone] by (auto simp: empty_output_def)
  from extract_fig_cases [of w l] show ?thesis
  proof (elim disjE exE conjE)
    assume "extract_fig w l empty_output = (Returns (), empty_output)"
    then have "try_block w alarm run empty_output
        = (Returns (), [(PStr ''result'', R0), (PStr ''plot_json'', PNone), (PStr ''error'', PNone)])"
      using Returns R0(1) by (simp add: try_block_def)
    then show ?thesis using Returns R0(2) by blast
  next
    fix fig j
    assume f: "extract_fig w l empty_output
        = (Returns (), [(PStr ''result'', PNone), (PStr ''plot_json'', PStr j), (PStr ''error'', PNone)])"
    obtain R1 where R1: "extract_result l [(PStr ''result'', PNone), (PStr ''plot_json'', PStr j), (PStr ''error'', PNone)]
        = [(PStr ''result'', R1), (PStr ''plot_json'', PStr j), (PStr ''error'', PNone)]"
      "\<forall>res. l ''result'' = Some (Frame res) \<longrightarrow>
           R1 = PDict [(PStr ''data'', to_dict_records (fillna (PStr []) (head 100 res))),
                    (PStr ''columns'', PList (columns res)),
                    (PStr ''row_count'', PInt (len_df res))]"
      using extract_result_shape [of l "PStr j"] by auto
    have "try_block w alarm run empty_output
        = (Returns (), [(PStr ''result'', R1), (PStr ''plot_json'', PStr j), (PStr ''error'', PNone)])"
      using Returns f R1(1) by (simp add: try_block_def)
    then show ?thesis using Returns R1(2) by blast
  next
    fix fig e
    assume "l ''fig'' = Some fig" "to_json w fig = Raises e"
      "extract_fig w l empty_output = (Raises e, empty_output)"
    then show ?thesis using Returns by (simp add: try_block_def)
  next
    fix fig
    assume "l ''fig'' = Some fig" "to_json w fig = Hangs"
      "extract_fig w l empty_output = (Hangs, empty_output)"
    then show ?thesis using Returns by (simp add: try_block_def)
  qed
next
  case (Raises e)
  then show ?thesis by (simp add: try_block_def)
next
  case Hangs
  then show ?thesis by (simp add: try_block_def)
qed











section \<open>Previews of tables\<close>

lemma preview_head: "preview_rows [(PStr ''data'', to_dict_records (fillna v (head n df))), c, r] = Some (min n (length (rows df)))"
  by (simp add: preview_rows_def dget_def to_dict_records_def fillna_def head_def min.commute)

lemma preview_all: "preview_rows [(PStr ''data'', to_dict_records (fillna v df)), c, r] = Some (length (rows df))"
  by (simp add: preview_rows_def dget_def to_dict_records_def fillna_def)

lemma filter_preview:
  "\<not> no_dataset st \<and> lookup_active st = Returns df \<and> getitem args ''conditions'' = Returns c
       \<and> filter_data w (heap st df) c = Returns result
    \<longrightarrow> (\<exists>env. fst (execute_tool w ''filter_data'' args st) = Returns env
          \<and> preview_rows env = Some (min 50 (length (rows result)))
          \<and> dget env ''row_count'' = Some (PInt (int (length (rows result)))))"
  by (simp add: execute_tool_def preview_head) (simp add: dget_def len_df_def)

lemma aggregate_preview:
  "\<not> no_dataset st \<and> lookup_active st = Returns df \<and> getitem args ''group_column'' = Returns g
       \<and> getitem args ''value_column'' = Returns v \<and> get_or args ''agg_func'' (PStr ''mean'') = Returns f
       \<and> aggregate_data w (heap st df) g v f = Returns result
    \<longrightarrow> (\<exists>env. fst (execute_tool w ''aggregate_data'' args st) = Returns env
          \<and> preview_rows env = Some (length (rows result))
          \<and> dget env ''row_count'' = Some (PInt (int (length (rows result)))))"
  by (simp add: execute_tool_def preview_all) (simp add: dget_def len_df_def)

lemma sandbox_table:
  assumes "fst (execute_code w code r t st) = Returns out" "dget out ''error'' = Some PNone"
    "py_exec (alarm_of w t) (script_behaviour w code (heap st r)) = Returns l"
    "l ''result'' = Some (Frame res)"
  shows "\<exists>inner. nested_result out = Some inner
          \<and> preview_rows inner = Some (min 100 (length (rows res)))
          \<and> dget inner ''row_count'' = Some (PInt (int (length (rows res))))"
  using try_block_cases [of "alarm_of w t" "script_behaviour w code (heap st r)" w] assms
  by (elim disjE exE conjE)
     (auto simp: execute_code_fst empty_output_def dget_def nested_result_def preview_head len_df_def
       split: pyexc.splits if_splits)

lemma demo_sandbox_output:
  "fst (execute_code demo_world (PStr ''df.drop(df.index, inplace=True)'') 0 10 demo_state)
     = Returns [(PStr ''result'',
                 PDict [(PStr ''data'', to_dict_records (fillna (PStr []) (head 100 demo_frame))),
                        (PStr ''columns'', PList (columns demo_frame)),
                        (PStr ''row_count'', PInt (len_df demo_frame))]),
                (PStr ''plot_json'', PNone), (PStr ''error'', PNone)]"
  by (simp add: execute_code_fst try_block_def py_exec_def alarm_of_def demo_world_simps
      demo_scripts_simps demo_run_def extract_fig_def extract_result_def empty_output_def
      demo_state_simps)

text \<open>
  Claim C4, as amended. The table envelope of \<open>filter_data\<close> previews at most 50 rows
  (the first 50 of the result, all of them when there are fewer), and a table that a
  sandbox script binds to \<open>result\<close> is previewed with at most 100 rows, the dispatcher
  handing the sandbox's output on as it is; the table envelope of \<open>aggregate_data\<close>
  carries every row of the aggregation. In all three the \<open>row_count\<close> is the number of
  rows of the full result.
\<close>

theorem table_previews:
  "(\<not> no_dataset st \<and> lookup_active st = Returns df \<and> getitem args ''conditions'' = Returns c
       \<and> filter_data w (heap st df) c = Returns result
      \<longrightarrow> (\<exists>env. fst (execute_tool w ''filter_data'' args st) = Returns env
            \<and> preview_rows env = Some (min 50 (length (rows result)))
            \<and> dget env ''row_count'' = Some (PInt (int (length (rows result))))))
   \<and> (\<not> no_dataset st \<and> lookup_active st = Returns df \<and> getitem args ''group_column'' = Returns g
       \<and> getitem args ''value_column'' = Returns v \<and> get_or args ''agg_func'' (PStr ''mean'') = Returns f
       \<and> aggregate_data w (heap st df) g v f = Returns result
      \<longrightarrow> (\<exists>env. fst (execute_tool w ''aggregate_data'' args st) = Returns env
            \<and> preview_rows env = Some (length (rows result))
            \<and> dget env ''row_count'' = Some (PInt (int (length (rows result))))))
   \<and> (\<not> no_dataset st \<and> lookup_active st = Returns df \<and> getitem args ''code'' = Returns code
      \<longrightarrow> execute_tool w ''execute_pandas_code'' args st = execute_code w code df 10 st)
   \<and> (fst (execute_code w code df t st) = Returns out \<and> dget out ''error'' = Some PNone
       \<and> py_exec (alarm_of w t) (script_behaviour w code (heap st df)) = Returns l
       \<and> l ''result'' = Some (Frame res)
      \<longrightarrow> (\<exists>inner. nested_result out = Some inner
            \<and> preview_rows inner = Some (min 100 (length (rows res)))
            \<and> dget inner ''row_count'' = Some (PInt (int (length (rows res))))))"
proof (intro conjI)
  show "\<not> no_dataset st \<and> lookup_active st = Returns df \<and> getitem args ''code'' = Returns code
      \<longrightarrow> execute_tool w ''execute_pandas_code'' args st = execute_code w code df 10 st"
    by (simp add: execute_tool_def)
next
  show "fst (execute_code w code df t st) = Returns out \<and> dget out ''error'' = Some PNone
       \<and> py_exec (alarm_of w t) (script_behaviour w code (heap st df)) = Returns l
       \<and> l ''result'' = Some (Frame res)
      \<longrightarrow> (\<exists>inner. nested_result out = Some inner
            \<and> preview_rows inner = Some (min 100 (length (rows res)))
            \<and> dget inner ''row_count'' = Some (PInt (int (length (rows res)))))"
    using sandbox_table [of w code df t st out l res] by simp
qed (rule filter_preview aggregate_preview)+

theorem table_previews_witness:
  "\<not> no_dataset demo_state \<and> lookup_active demo_state = Returns 0
   \<and> getitem demo_filter_args ''conditions'' = Returns (PStr ''expression != 0'')
   \<and> filter_data demo_world (heap demo_state 0) (PStr ''expression != 0'') = Returns demo_frame
   \<and> (\<exists>env. fst (execute_tool demo_world ''filter_data'' demo_filter_args demo_state) = Returns env
         \<and> preview_rows env = Some 50 \<and> dget env ''row_count'' = Some (PInt 120))
   \<and> (\<exists>env. fst (execute_tool demo_world ''aggregate_data'' demo_agg_args demo_state) = Returns env
         \<and> preview_rows env = Some 120 \<and> dget env ''row_count'' = Some (PInt 120))
   \<and> (\<exists>out inner. fst (execute_tool demo_world ''execute_pandas_code'' demo_code_args demo_state) = Returns out
         \<and> nested_result out = Some inner
         \<and> preview_rows inner = Some 100 \<and> dget inner ''row_count'' = Some (PInt 120))"
proof -
  have n: "length (rows demo_frame) = 120"
    by (simp add: demo_frame_def)
  have h1: "\<not> no_dataset demo_state \<and> lookup_active demo_state = Returns 0
      \<and> getitem demo_filter_args ''conditions'' = Returns (PStr ''expression != 0'')
      \<and> filter_data demo_world (heap demo_state 0) (PStr ''expression != 0'') = Returns demo_frame"
    by (simp add: demo_state_simps demo_lookup demo_filter_args_def dget_def demo_world_simps)
  have h2: "getitem demo_agg_args ''group_column'' = Returns (PStr ''gene'')
      \<and> getitem demo_agg_args ''value_column'' = Returns (PStr ''expression'')
      \<and> get_or demo_agg_args ''agg_func'' (PStr ''mean'') = Returns (PStr ''mean'')
      \<and> aggregate_data demo_world (heap demo_state 0) (PStr ''gene'') (PStr ''expression'') (PStr ''mean'')
          = Returns demo_frame"
    by (simp add: demo_state_simps demo_agg_args_def dget_def dget_default_def demo_world_simps)
  have h3: "getitem demo_code_args ''code'' = Returns (PStr ''df.drop(df.index, inplace=True)'')"
    by (simp add: demo_code_args_def dget_def)
  have h4: "py_exec (alarm_of demo_world 10)
       (script_behaviour demo_world (PStr ''df.drop(df.index, inplace=True)'') (heap demo_state 0))
      = Returns [''result'' \<mapsto> Frame demo_frame]"
    by (simp add: py_exec_def alarm_of_def demo_world_simps demo_scripts_simps demo_run_def demo_state_simps)
  note t1 = table_previews [of demo_state 0 demo_filter_args "PStr ''expression != 0''" demo_world demo_frame]
  note t2 = table_previews [of demo_state 0 demo_agg_args _ demo_world demo_frame
      "PStr ''gene''" "PStr ''expression''" "PStr ''mean''"]
  note t3 = table_previews [of demo_state 0 demo_code_args _ demo_world _ _ _ _
      "PStr ''df.drop(df.index, inplace=True)''" 10 _ "[''result'' \<mapsto> Frame demo_frame]" demo_frame]
  have a: "\<exists>env. fst (execute_tool demo_world ''filter_data'' demo_filter_args demo_state) = Returns env
         \<and> preview_rows env = Some 50 \<and> dget env ''row_count'' = Some (PInt 120)"
    using t1 h1 n by simp
  have b: "\<exists>env. fst (execute_tool demo_world ''aggregate_data'' demo_agg_args demo_state) = Returns env
         \<and> preview_rows env = Some 120 \<and> dget env ''row_count'' = Some (PInt 120)"
    using t2 h1 h2 n by simp
  have c: "\<exists>out inner. fst (execute_tool demo_world ''execute_pandas_code'' demo_code_args demo_state) = Returns out
         \<and> nested_result out = Some inner
         \<and> preview_rows inner = Some 100 \<and> dget inner ''row_count'' = Some (PInt 120)"
    using t3 h1 h3 h4 n demo_sandbox_output by (simp add: dget_def)
  show ?thesis using h1 a b c by simp
qed

text \<open>
  The claim as stated fails for \<open>aggregate_data\<close>, whose envelope is built without
  \<open>head\<close>: an aggregation with 120 groups is previewed with 120 rows.
\<close>

theorem aggregate_not_capped_counterexample:
  "Option.bind (returned (fst (execute_tool demo_world ''aggregate_data'' demo_agg_args demo_state))) preview_rows
     = Some 120"
  by (simp add: execute_tool_def demo_state_simps demo_lookup demo_agg_args_def dget_def dget_default_def
      demo_world_simps preview_all)
     (simp add: demo_frame_def)

section \<open>Folding the tool results into the response\<close>

lemma fold_tool_result_fields:
  "plot_json (fold_tool_result env rd) = (case chart_of env of None \<Rightarrow> plot_json rd | Some p \<Rightarrow> p)"
  "table_data (fold_tool_result env rd) = (case table_of env of None \<Rightarrow> table_data rd | Some t \<Rightarrow> fst t)"
  "table_columns (fold_tool_result env rd) = (case table_of env of None \<Rightarrow> table_columns rd | Some t \<Rightarrow> snd t)"
  "resp_text (fold_tool_result env rd) = resp_text rd"
  by (auto simp: fold_tool_result_def chart_of_def table_of_def inner_table_of_def outer_table_of_def Let_def
      split: option.splits pyval.splits)

lemma run_tools_response:
  "fst (snd (snd (run_tools w tcs ms rd st)))
     = foldl (\<lambda>r env. fold_tool_result env r) rd (tool_results w tcs st)"
  by (induction tcs arbitrary: ms rd st) (auto split: outcome.splits prod.splits)

lemma foldl_no_chart:
  "\<forall>e\<in>set post. chart_of e = None
    \<Longrightarrow> plot_json (foldl (\<lambda>r env. fold_tool_result env r) rd post) = plot_json rd"
  by (induction post arbitrary: rd) (simp_all add: fold_tool_result_fields)

lemma foldl_no_table:
  "\<forall>e\<in>set post. table_of e = None
    \<Longrightarrow> table_data (foldl (\<lambda>r env. fold_tool_result env r) rd post) = table_data rd
      \<and> table_columns (foldl (\<lambda>r env. fold_tool_result env r) rd post) = table_columns rd"
  by (induction post arbitrary: rd) (simp_all add: fold_tool_result_fields)

lemma foldl_last_chart:
  "chart_of env = Some p \<Longrightarrow> \<forall>e\<in>set post. chart_of e = None
    \<Longrightarrow> plot_json (foldl (\<lambda>r env. fold_tool_result env r) (fold_tool_result env rd) post) = p"
  by (simp add: foldl_no_chart fold_tool_result_fields)

lemma foldl_last_table:
  "table_of env = Some (d, cs) \<Longrightarrow> \<forall>e\<in>set post. table_of e = None
    \<Longrightarrow> table_data (foldl (\<lambda>r env. fold_tool_result env r) (fold_tool_result env rd) post) = d
      \<and> table_columns (foldl (\<lambda>r env. fold_tool_result env r) (fold_tool_result env rd) post) = cs"
  by (simp add: foldl_no_table fold_tool_result_fields)

lemma chat_response_fields:
  assumes "api_key w \<noteq> []"
    and "complete w (build_messages w st user_message) True = Returns assistant_msg"
    and "tool_calls assistant_msg \<noteq> []"
    and "fst (chat w user_message st) = Returns response"
  shows "\<exists>rd. rd = foldl (\<lambda>r env. fold_tool_result env r)
             \<lparr>resp_text = [], plot_json = PNone, table_data = PNone, table_columns = PNone\<rparr>
             (tool_results w (tool_calls assistant_msg) (with_user_turn st user_message))
      \<and> plot_json response = plot_json rd \<and> table_data response = table_data rd
      \<and> table_columns response = table_columns rd"
proof -
  let ?rd0 = "\<lparr>resp_text = [], plot_json = PNone, table_data = PNone, table_columns = PNone\<rparr>"
  let ?ms = "build_messages w st user_message"
  obtain oc ms1 rd1 st2 where rt:
    "run_tools w (tool_calls assistant_msg) (?ms @ [AssistantMsg assistant_msg]) ?rd0
       (with_user_turn st user_message) = (oc, ms1, rd1, st2)"
    by (metis prod_cases4)
  have rd1: "rd1 = foldl (\<lambda>r env. fold_tool_result env r) ?rd0
      (tool_results w (tool_calls assistant_msg) (with_user_turn st user_message))"
    using run_tools_response [of w "tool_calls assistant_msg" "?ms @ [AssistantMsg assistant_msg]" ?rd0
        "with_user_turn st user_message"] rt by simp
  have "plot_json response = plot_json rd1 \<and> table_data response = table_data rd1
      \<and> table_columns response = table_columns rd1"
    using assms rt
    by (auto simp: chat_def get_client_def try_chat_def Let_def store_response_def
        with_user_turn_def split: outcome.splits if_splits)
  then show ?thesis using rd1 by simp
qed

lemma demo_two_charts_reply:
  "complete demo_world (build_messages demo_world demo_state ''two charts'') True
     = Returns \<lparr>content = None,
          tool_calls = [\<lparr>call_id = ''c1'', fn_name = ''generate_plot'', fn_arguments = ''bar''\<rparr>,
                        \<lparr>call_id = ''c2'', fn_name = ''generate_plot'', fn_arguments = ''pie''\<rparr>]\<rparr>"
  by (simp add: demo_world_simps demo_complete_def build_messages_def)

lemma demo_plot:
  "lookup_active st = Returns 0 \<Longrightarrow> \<not> no_dataset st \<Longrightarrow>
   execute_tool demo_world ''generate_plot'' (PDict [(PStr ''plot_type'', PStr s), (PStr ''x_column'', PStr ''gene'')]) st
     = (Returns [(PStr ''plot_json'', PStr (''chart:'' @ s)), (PStr ''plot_type'', PStr s)], st)"
  by (simp add: execute_tool_def dget_def dget_default_def demo_world_simps)

lemma demo_two_charts_results:
  "tool_results demo_world
      [\<lparr>call_id = ''c1'', fn_name = ''generate_plot'', fn_arguments = ''bar''\<rparr>,
       \<lparr>call_id = ''c2'', fn_name = ''generate_plot'', fn_arguments = ''pie''\<rparr>]
      (with_user_turn demo_state ''two charts'')
     = [[(PStr ''plot_json'', PStr ''chart:bar''), (PStr ''plot_type'', PStr ''bar'')]]
       @ [(PStr ''plot_json'', PStr ''chart:pie''), (PStr ''plot_type'', PStr ''pie'')] # []"
proof -
  have a: "lookup_active (with_user_turn demo_state ''two charts'') = Returns 0"
    by (simp add: with_user_turn_def lookup_active_def demo_state_def)
  have b: "\<not> no_dataset (with_user_turn demo_state ''two charts'')"
    by (simp add: with_user_turn_def no_dataset_def demo_state_def)
  show ?thesis
    by (simp add: demo_world_simps demo_plot [OF a b])
qed

lemma demo_two_charts_chat:
  "fst (chat demo_world ''two charts'' demo_state)
     = Returns \<lparr>resp_text = ''ok'', plot_json = PStr ''chart:pie'', table_data = PNone,
          table_columns = PNone\<rparr>"
proof -
  have a: "lookup_active (with_user_turn demo_state ''two charts'') = Returns 0"
    by (simp add: with_user_turn_def lookup_active_def demo_state_def)
  have b: "\<not> no_dataset (with_user_turn demo_state ''two charts'')"
    by (simp add: with_user_turn_def no_dataset_def demo_state_def)
  have c: "demo_complete ms False = Returns \<lparr>content = Some ''ok'', tool_calls = []\<rparr>" for ms
    by (simp add: demo_complete_def)
  show ?thesis
    using demo_two_charts_reply
    by (simp add: chat_def get_client_def demo_world_simps try_chat_def Let_def
        demo_plot [OF a b, unfolded with_user_turn_def] c fold_tool_result_def dget_def
        store_response_def content_or_empty_def)
qed

text \<open>
  Claim C5. In a pass of \<open>chat\<close> whose first model response carries tool calls, let the
  tool results folded by the loop be, in the order of the calls, \<open>pre\<close>, then \<open>env\<close>,
  then \<open>post\<close>. If \<open>env\<close> yields a chart and no result after it does, the chart of the
  response is the chart of \<open>env\<close>, whatever the results before it yielded; likewise, if
  \<open>env\<close> yields a table and no result after it does, the rows and the columns of the
  response are those of \<open>env\<close>. The last write wins; nothing is merged.
\<close>

theorem last_write_wins:
  assumes "api_key w \<noteq> []"
    and "complete w (build_messages w st user_message) True = Returns assistant_msg"
    and "tool_calls assistant_msg \<noteq> []"
    and "fst (chat w user_message st) = Returns response"
    and "tool_results w (tool_calls assistant_msg) (with_user_turn st user_message) = pre @ env # post"
  shows "(chart_of env = Some p \<and> (\<forall>e\<in>set post. chart_of e = None) \<longrightarrow> plot_json response = p)
     \<and> (table_of env = Some (d, cs) \<and> (\<forall>e\<in>set post. table_of e = None)
          \<longrightarrow> table_data response = d \<and> table_columns response = cs)"
  using chat_response_fields [OF assms(1-4)] assms(5)
  by (auto simp: foldl_last_chart foldl_last_table)

theorem last_write_wins_witness:
  "api_key demo_world \<noteq> []
   \<and> fst (chat demo_world ''two charts'' demo_state)
       = Returns \<lparr>resp_text = ''ok'', plot_json = PStr ''chart:pie'', table_data = PNone,
            table_columns = PNone\<rparr>
   \<and> chart_of [(PStr ''plot_json'', PStr ''chart:bar''), (PStr ''plot_type'', PStr ''bar'')]
       = Some (PStr ''chart:bar'')
   \<and> chart_of [(PStr ''plot_json'', PStr ''chart:pie''), (PStr ''plot_type'', PStr ''pie'')]
       = Some (PStr ''chart:pie'')"
proof -
  have k: "api_key demo_world \<noteq> []"
    by (simp add: demo_world_simps)
  let ?reply = "\<lparr>content = None,
          tool_calls = [\<lparr>call_id = ''c1'', fn_name = ''generate_plot'', fn_arguments = ''bar''\<rparr>,
                        \<lparr>call_id = ''c2'', fn_name = ''generate_plot'', fn_arguments = ''pie''\<rparr>]\<rparr>"
  have t: "tool_calls ?reply \<noteq> []"
    by simp
  have tr: "tool_results demo_world (tool_calls ?reply) (with_user_turn demo_state ''two charts'')
     = [[(PStr ''plot_json'', PStr ''chart:bar''), (PStr ''plot_type'', PStr ''bar'')]]
       @ [(PStr ''plot_json'', PStr ''chart:pie''), (PStr ''plot_type'', PStr ''pie'')] # []"
    using demo_two_charts_results by simp
  have c: "chart_of [(PStr ''plot_json'', PStr ''chart:pie''), (PStr ''plot_type'', PStr ''pie'')]
       = Some (PStr ''chart:pie'')"
      "chart_of [(PStr ''plot_json'', PStr ''chart:bar''), (PStr ''plot_type'', PStr ''bar'')]
       = Some (PStr ''chart:bar'')"
    by (simp_all add: chart_of_def dget_def)
  show ?thesis
    using last_write_wins [OF k demo_two_charts_reply t demo_two_charts_chat tr,
        where p = "PStr ''chart:pie''"]
      k c demo_two_charts_chat
    by simp
qed

section \<open>When the dispatcher returns\<close>


























section \<open>One message, two turns\<close>

lemma run_tools_history:
  "conversation_history (snd (snd (snd (run_tools w tcs ms rd st)))) = conversation_history st"
proof (induction tcs arbitrary: ms rd st)
  case Nil
  then show ?case by simp
next
  case (Cons tc tcs)
  have h: "conversation_history (snd (execute_tool w n a st)) = conversation_history st" for n a
    using execute_tool_store [of w n a st] by simp
  show ?case
  proof (cases "json_loads w (fn_arguments tc)")
    case (Returns a)
    obtain r st1 where e: "execute_tool w (fn_name tc) a st = (r, st1)"
      by (cases "execute_tool w (fn_name tc) a st")
    then have st1: "conversation_history st1 = conversation_history st"
      using h [of "fn_name tc" a] by simp
    show ?thesis
      using Returns e st1 Cons.IH
      by (cases r; cases "json_dumps w (the (returned r))") (simp_all split: outcome.splits)
  qed simp_all
qed


lemma try_chat_history:
  "conversation_history (snd (snd (try_chat w ms rd st))) = conversation_history st"
proof (cases "complete w ms True")
  case (Returns a)
  show ?thesis
  proof (cases "tool_calls a = []")
    case True
    then show ?thesis using Returns by (simp add: try_chat_def)
  next
    case False
    obtain oc ms1 rd1 st1 where r: "run_tools w (tool_calls a) (ms @ [AssistantMsg a]) rd st = (oc, ms1, rd1, st1)"
      by (metis prod_cases4)
    then have "conversation_history st1 = conversation_history st"
      using run_tools_history [of w "tool_calls a" "ms @ [AssistantMsg a]" rd st] by simp
    then show ?thesis
      using Returns False r by (simp add: try_chat_def split: outcome.splits)
  qed
qed (simp_all add: try_chat_def)


lemma chat_history:
  assumes "api_key w \<noteq> []"
  shows "(\<exists>response st'. chat w user_message st = (Returns response, st')
           \<and> conversation_history st' = conversation_history st
               @ [UserTurn user_message,
                  AssistantTurn (resp_text response) (plot_json response) (table_data response)
                    (table_columns response)])
       \<or> (\<not> tame (fst (chat w user_message st))
           \<and> conversation_history (snd (chat w user_message st))
               = conversation_history st @ [UserTurn user_message])"
proof -
  let ?rd0 = "\<lparr>resp_text = [], plot_json = PNone, table_data = PNone, table_columns = PNone\<rparr>"
  obtain oc rd st2 where t: "try_chat w (build_messages w st user_message) ?rd0
      (with_user_turn st user_message) = (oc, rd, st2)"
    by (metis prod_cases3)
  have h: "conversation_history st2 = conversation_history st @ [UserTurn user_message]"
    using try_chat_history [of w "build_messages w st user_message" ?rd0 "with_user_turn st user_message"] t
    by (simp add: with_user_turn_def)
  show ?thesis
    using assms t h
    by (cases oc)
       (auto simp: chat_def get_client_def Let_def store_response_def with_user_turn_def)
qed





section \<open>The window of the prompt\<close>

lemma last_n_length: "length (last_n n xs) = min n (length xs)"
  by (simp add: last_n_def)

lemma last_n_suffix: "take (length xs - n) xs @ last_n n xs = xs"
  by (simp add: last_n_def)

text \<open>
  Claim C9. The messages of the first model call are the system prompt, then the last 20
  turns of the stored history in their order (all of them when there are fewer), then the
  new user message: \<open>min 20 n + 2\<close> messages for a history of \<open>n\<close> turns. The history
  listing returns every stored turn, in order, with its role and content, and a call of
  \<open>chat\<close> keeps every turn that was stored before it.
\<close>

theorem prompt_history_window:
  "build_messages w st user_message
      = Msg ''system'' (build_system_prompt w st)
        # map (\<lambda>h. Msg (turn_role h) (turn_content h)) (last_n 20 (conversation_history st))
        @ [Msg ''user'' user_message]
   \<and> length (last_n 20 (conversation_history st)) = min 20 (length (conversation_history st))
   \<and> take (length (conversation_history st) - 20) (conversation_history st)
       @ last_n 20 (conversation_history st) = conversation_history st
   \<and> length (build_messages w st user_message) = min 20 (length (conversation_history st)) + 2
   \<and> get_history st = map history_item (conversation_history st)
   \<and> map item_role (get_history st) = map turn_role (conversation_history st)
   \<and> map item_content (get_history st) = map turn_content (conversation_history st)
   \<and> take (length (conversation_history st)) (conversation_history (snd (chat w user_message st)))
       = conversation_history st"
proof -
  have r: "item_role (history_item h) = turn_role h" "item_content (history_item h) = turn_content h" for h
    by (cases h; simp)+
  have c: "take (length (conversation_history st)) (conversation_history (snd (chat w user_message st)))
       = conversation_history st"
  proof (cases "api_key w = []")
    case True
    then show ?thesis by (simp add: chat_def get_client_def)
  next
    case False
    then show ?thesis using chat_history [OF False, of user_message st] by auto
  qed
  show ?thesis
    using c by (simp add: build_messages_def last_n_length last_n_suffix get_history_def r)
qed

theorem prompt_history_window_witness:
  "length (conversation_history long_state) = 25
   \<and> length (build_messages demo_world long_state ''hello'') = 22
   \<and> last_n 20 (conversation_history long_state) = map (\<lambda>i. UserTurn (replicate i (CHR ''q''))) [5..<25]
   \<and> length (get_history long_state) = 25"
proof -
  have l: "length (conversation_history long_state) = 25"
    by (simp add: long_state_def)
  have d: "last_n 20 (conversation_history long_state) = map (\<lambda>i. UserTurn (replicate i (CHR ''q''))) [5..<25]"
    by (simp add: long_state_def last_n_def drop_map)
  show ?thesis
    using prompt_history_window [of demo_world long_state "''hello''"] l d by simp
qed

end
